theory Spec2Isabelle
  imports Complex_Main
begin

section \<open>Tensors and the TensorFlow operations the simulation cell calls\<close>

text \<open>
  The cell of \<^verbatim>\<open>tfmdp/train/mrm.py\<close> builds its result from TensorFlow tensors. A tensor
  is modelled by its element type tag, its static shape and its elements in row-major
  order. The type \<open>'e\<close> of the elements is left open, so that an element may be any
  float32, integer or boolean value, an infinity or a NaN included. The element types
  are those the fluents of an RDDL model take, in both widths.
\<close>

datatype dtype = tf_float32 | tf_float64 | tf_int32 | tf_int64 | tf_bool

record 'e tensor =
  dtype :: dtype
  shape :: "nat list"
  vals :: "'e list"

text \<open>Python exceptions, as values.\<close>

datatype error = ValueError | TypeError | AttributeError | KeyError | NameError string

text \<open>
  TensorFlow's arithmetic on elements is not code of this repository, and it is not the
  arithmetic of the real numbers: float32 rounds, the integer types wrap around. The
  kernels the cell reaches are parameters: the Add kernel on two elements of an element
  type, the Sum kernel on the elements it reduces to one (in the order of the axis), and
  the Cast kernel from one element type to another.
\<close>

record 'e tf_numerics =
  add_op :: "dtype \<Rightarrow> 'e \<Rightarrow> 'e \<Rightarrow> 'e"
  sum_op :: "dtype \<Rightarrow> 'e list \<Rightarrow> 'e"
  cast_op :: "dtype \<Rightarrow> dtype \<Rightarrow> 'e \<Rightarrow> 'e"

definition wf_tensor :: "'e tensor \<Rightarrow> bool" where
  "wf_tensor t = (length (vals t) = prod_list (shape t))"

text \<open>\<open>chunks n sz xs\<close>: the \<open>n\<close> consecutive blocks of \<open>sz\<close> elements of \<open>xs\<close>.\<close>

definition chunks :: "nat \<Rightarrow> nat \<Rightarrow> 'a list \<Rightarrow> 'a list list" where
  "chunks n sz xs = map (\<lambda>i. take sz (drop (i * sz) xs)) [0..<n]"

text \<open>
  \<^verbatim>\<open>tf.split(t, sizes, axis=1)\<close>: needs an axis 1 whose width is the sum of the sizes;
  the i-th result holds, in every batch row, the columns of the i-th size.
\<close>

definition tf_split_axis1 :: "'e tensor \<Rightarrow> nat list \<Rightarrow> error + 'e tensor list" where
  "tf_split_axis1 t sizes =
     (if length (shape t) < 2 then Inl ValueError
      else if sum_list sizes = shape t ! 1 then
        (let b = hd (shape t); k = shape t ! 1; m = prod_list (drop 2 (shape t)) in
         Inr (map (\<lambda>i.
               \<lparr>dtype = dtype t,
                shape = b # (sizes ! i) # drop 2 (shape t),
                vals = concat (map (\<lambda>row. take (sizes ! i * m) (drop (sum_list (take i sizes) * m) row))
                                   (chunks b (k * m) (vals t)))\<rparr>)
              [0..<length sizes]))
      else Inl ValueError)"

text \<open>
  \<^verbatim>\<open>tf.concat(ts, axis=1)\<close>: an empty list is refused by the ConcatV2 op; a single tensor
  is returned as it is; otherwise the tensors agree on the element type and on every
  dimension but axis 1, and every batch row of the result is the rows of the inputs one
  after the other.
\<close>

definition tf_concat_axis1 :: "'e tensor list \<Rightarrow> error + 'e tensor" where
  "tf_concat_axis1 ts =
     (case ts of
        [] \<Rightarrow> Inl ValueError
      | [t] \<Rightarrow> Inr t
      | t # _ \<Rightarrow>
          if list_ex (\<lambda>u. dtype u \<noteq> dtype t) ts then Inl TypeError
          else if list_ex (\<lambda>u. length (shape u) < 2) ts then Inl ValueError
          else if list_ex (\<lambda>u. hd (shape u) \<noteq> hd (shape t) \<or> drop 2 (shape u) \<noteq> drop 2 (shape t)) ts
            then Inl ValueError
          else
            (let b = hd (shape t); m = prod_list (drop 2 (shape t)) in
             Inr \<lparr>dtype = dtype t,
                  shape = b # sum_list (map (\<lambda>u. shape u ! 1) ts) # drop 2 (shape t),
                  vals = concat (map (\<lambda>i. concat (map (\<lambda>u. chunks b (shape u ! 1 * m) (vals u) ! i) ts))
                                     [0..<b])\<rparr>))"

text \<open>
  \<^verbatim>\<open>tf.reduce_sum(t, axis=1)\<close>: axis 1 disappears; every batch row becomes the
  elementwise Sum of its \<open>k\<close> slices. The Sum op takes no boolean tensor.
\<close>

definition tf_reduce_sum_axis1 :: "'e tf_numerics \<Rightarrow> 'e tensor \<Rightarrow> error + 'e tensor" where
  "tf_reduce_sum_axis1 tf t =
     (if dtype t = tf_bool then Inl TypeError
      else if length (shape t) < 2 then Inl ValueError
      else
        (let b = hd (shape t); k = shape t ! 1; m = prod_list (drop 2 (shape t)) in
         Inr \<lparr>dtype = dtype t,
              shape = b # drop 2 (shape t),
              vals = concat (map (\<lambda>row. map (\<lambda>j. sum_op tf (dtype t) (map (\<lambda>c. c ! j) (chunks k m row)))
                                            [0..<m])
                                 (chunks b (k * m) (vals t)))\<rparr>))"

text \<open>Broadcasting of two shapes, read from the last dimension backwards.\<close>

fun broadcast_shape :: "nat list \<Rightarrow> nat list \<Rightarrow> nat list option" where
  "broadcast_shape [] ys = Some ys"
| "broadcast_shape (x # xs) [] = Some (x # xs)"
| "broadcast_shape (x # xs) (y # ys) =
     (if x = y \<or> x = 1 \<or> y = 1
      then map_option (\<lambda>r. (if x = 1 then y else x) # r) (broadcast_shape xs ys)
      else None)"

text \<open>The elements of a tensor of shape \<open>ds\<close> broadcast to the shape \<open>es\<close> of the same rank.\<close>

fun broadcast_vals :: "nat list \<Rightarrow> nat list \<Rightarrow> 'e list \<Rightarrow> 'e list" where
  "broadcast_vals (d # ds) (e # es) xs =
     (if d = e then concat (map (broadcast_vals ds es) (chunks d (prod_list ds) xs))
      else concat (replicate e (broadcast_vals ds es xs)))"
| "broadcast_vals ds es xs = xs"

text \<open>
  The \<^verbatim>\<open>+\<close> of two tensors (the Add op): the same numeric element type on both sides,
  broadcast-compatible shapes, the Add kernel on every pair of elements.
\<close>

definition tf_add :: "'e tf_numerics \<Rightarrow> 'e tensor \<Rightarrow> 'e tensor \<Rightarrow> error + 'e tensor" where
  "tf_add tf a b =
     (if dtype a = dtype b then
        (if dtype a = tf_bool then Inl TypeError
         else if shape a = shape b then
           Inr \<lparr>dtype = dtype a, shape = shape a,
                vals = map2 (add_op tf (dtype a)) (vals a) (vals b)\<rparr>
         else
           (case broadcast_shape (rev (shape a)) (rev (shape b)) of
              None \<Rightarrow> Inl ValueError
            | Some rs \<Rightarrow>
                (let s = rev rs;
                     sa = replicate (length s - length (shape a)) 1 @ shape a;
                     sb = replicate (length s - length (shape b)) 1 @ shape b
                 in Inr \<lparr>dtype = dtype a, shape = s,
                         vals = map2 (add_op tf (dtype a))
                                  (broadcast_vals sa s (vals a)) (broadcast_vals sb s (vals b))\<rparr>)))
      else Inl TypeError)"

text \<open>\<^verbatim>\<open>tf.expand_dims(t, -1)\<close>: a new last dimension of width 1.\<close>

definition tf_expand_dims_last :: "'e tensor \<Rightarrow> 'e tensor" where
  "tf_expand_dims_last t = t\<lparr>shape := shape t @ [1]\<rparr>"

text \<open>\<^verbatim>\<open>tf.cast(t, d)\<close>: the Cast kernel on every element; the shape stays.\<close>

definition tf_cast :: "'e tf_numerics \<Rightarrow> 'e tensor \<Rightarrow> dtype \<Rightarrow> 'e tensor" where
  "tf_cast tf t d =
     \<lparr>dtype = d, shape = shape t, vals = map (cast_op tf (dtype t) d) (vals t)\<rparr>"


section \<open>The collaborators of the cell\<close>

text \<open>
  \<^verbatim>\<open>rddl2tf\<close>'s TensorFluent, of which the cell reads the attribute \<^verbatim>\<open>tensor\<close> only.
  A fluent triple is \<^verbatim>\<open>(name, fluent, log_prob)\<close>; the log-probability of a
  deterministic fluent is absent (Python's None).
\<close>

record 'e TensorFluent =
  tensor :: "'e tensor"

type_synonym 'e FluentTriple = "string \<times> 'e TensorFluent \<times> 'e TensorFluent option"

type_synonym 'e Scope = "string \<rightharpoonup> 'e TensorFluent"

type_synonym Shape = "int list"

text \<open>
  The compiler and the policy are not code of this module: the cell takes them as
  parameters, functions of their arguments as the spec has them. Each call may raise;
  what a call samples is part of the function given. The state and the action are tuples
  of tensors, which no call can change.
  The scope is a Python dictionary, and \<^verbatim>\<open>compile_probabilistic_cpfs\<close> receives the
  dictionary itself, not a copy: whatever the call writes into it is there when the cell
  goes on. So the call returns, beside the two lists of fluent triples, the dictionary as
  it left it.
\<close>

record 'e Compiler =
  state_size :: "Shape list"
  action_size :: "Shape list"
  interm_size :: "Shape list"
  compile_initial_state :: "int \<Rightarrow> error + 'e tensor list"
  transition_scope :: "'e tensor list \<Rightarrow> 'e tensor list \<Rightarrow> error + 'e Scope"
  compile_probabilistic_cpfs ::
    "'e Scope \<Rightarrow> int \<Rightarrow> error + (('e FluentTriple list \<times> 'e FluentTriple list) \<times> 'e Scope)"
  compile_reward :: "'e Scope \<Rightarrow> error + 'e TensorFluent"

type_synonym 'e DeepReactivePolicy = "'e tensor list \<Rightarrow> 'e tensor \<Rightarrow> error + 'e tensor list"


section \<open>MRMCell\<close>

record 'e MRMCell =
  compiler :: "'e Compiler"
  policy :: "'e DeepReactivePolicy"
  batch_size :: int

definition MRMCell_state_size :: "'e MRMCell \<Rightarrow> Shape list" where
  "MRMCell_state_size self = state_size (compiler self)"

definition MRMCell_action_size :: "'e MRMCell \<Rightarrow> Shape list" where
  "MRMCell_action_size self = action_size (compiler self)"

definition MRMCell_interm_size :: "'e MRMCell \<Rightarrow> Shape list" where
  "MRMCell_interm_size self = interm_size (compiler self)"

definition MRMCell_output_size :: "'e MRMCell \<Rightarrow> Shape list \<times> Shape list \<times> Shape list \<times> int \<times> int" where
  "MRMCell_output_size self =
     (MRMCell_state_size self, MRMCell_action_size self, MRMCell_interm_size self, 1, 1)"

definition MRMCell_initial_state :: "'e MRMCell \<Rightarrow> error + 'e tensor list" where
  "MRMCell_initial_state self = compile_initial_state (compiler self) (batch_size self)"

text \<open>
  \<^verbatim>\<open>[log_prob.tensor for _, _, log_prob in fluents]\<close>: reading \<^verbatim>\<open>.tensor\<close> of an absent
  log-probability raises AttributeError.
\<close>

fun log_prob_tensors :: "'e FluentTriple list \<Rightarrow> error + 'e tensor list" where
  "log_prob_tensors [] = Inr []"
| "log_prob_tensors ((_, _, log_prob) # fluents) =
     (case log_prob of
        None \<Rightarrow> Inl AttributeError
      | Some lp \<Rightarrow>
          (case log_prob_tensors fluents of
             Inl e \<Rightarrow> Inl e
           | Inr ts \<Rightarrow> Inr (tensor lp # ts)))"

text \<open>
  \<^verbatim>\<open>MRMCell._log_prob\<close> treats its two groups of fluents alike: the log-probability
  tensors, concatenated along axis 1, summed along axis 1. \<open>group_log_prob\<close> is that
  common part; the intermediate group is evaluated first.
\<close>

definition group_log_prob :: "'e tf_numerics \<Rightarrow> 'e FluentTriple list \<Rightarrow> error + 'e tensor" where
  "group_log_prob tf fluents =
     (case log_prob_tensors fluents of
        Inl e \<Rightarrow> Inl e
      | Inr log_probs \<Rightarrow>
          (case tf_concat_axis1 log_probs of
             Inl e \<Rightarrow> Inl e
           | Inr c \<Rightarrow> tf_reduce_sum_axis1 tf c))"

definition MRMCell_log_prob ::
  "'e tf_numerics \<Rightarrow> 'e FluentTriple list \<Rightarrow> 'e FluentTriple list \<Rightarrow> error + 'e tensor" where
  "MRMCell_log_prob tf interm_fluents next_state_fluents =
     (case group_log_prob tf interm_fluents of
        Inl e \<Rightarrow> Inl e
      | Inr interm_log_prob \<Rightarrow>
          (case group_log_prob tf next_state_fluents of
             Inl e \<Rightarrow> Inl e
           | Inr next_state_log_prob \<Rightarrow>
               (case tf_add tf interm_log_prob next_state_log_prob of
                  Inl e \<Rightarrow> Inl e
                | Inr s \<Rightarrow> Inr (tf_expand_dims_last s))))"

definition MRMCell_tensors :: "'e FluentTriple list \<Rightarrow> 'e tensor list" where
  "MRMCell_tensors fluents = map (\<lambda>(_, fluent, _). tensor fluent) fluents"

definition MRMCell_dtype :: "'e tf_numerics \<Rightarrow> 'e tensor \<Rightarrow> 'e tensor" where
  "MRMCell_dtype tf t = (if dtype t \<noteq> tf_float32 then tf_cast tf t tf_float32 else t)"

definition MRMCell_output :: "'e tf_numerics \<Rightarrow> 'e FluentTriple list \<Rightarrow> 'e tensor list" where
  "MRMCell_output tf fluents = map (MRMCell_dtype tf) (MRMCell_tensors fluents)"

text \<open>
  \<^verbatim>\<open>{name: fluent for name, fluent, _ in fluents}\<close>: a later triple of the same name
  replaces an earlier one.
\<close>

fun fluent_dict :: "'e FluentTriple list \<Rightarrow> 'e Scope" where
  "fluent_dict [] = Map.empty"
| "fluent_dict ((name, fluent, _) # fluents) = [name \<mapsto> fluent] ++ fluent_dict fluents"

type_synonym 'e CellOutput =
  "'e tensor list \<times> 'e tensor list \<times> 'e tensor list \<times> 'e tensor \<times> 'e tensor"

text \<open>
  \<^verbatim>\<open>MRMCell.__call__\<close>. The two parts of the split input are bound and not used again.
  The transition scope is one dictionary throughout: \<^verbatim>\<open>compile_probabilistic_cpfs\<close> is
  given it, \<^verbatim>\<open>transition_scope.update(...)\<close> then writes the next-state fluents into what
  that call left, and \<^verbatim>\<open>compile_reward\<close> is given the result. The graph that
  \<^verbatim>\<open>_log_prob\<close> enters is not modelled.
\<close>

definition MRMCell_call ::
  "'e tf_numerics \<Rightarrow> 'e MRMCell \<Rightarrow> 'e tensor \<Rightarrow> 'e tensor list
     \<Rightarrow> error + ('e CellOutput \<times> 'e tensor list)" where
  "MRMCell_call tf self input state =
     (case tf_split_axis1 input [1, 1] of
        Inl e \<Rightarrow> Inl e
      | Inr parts \<Rightarrow>
     (case parts of
        [timestep, stop_flag] \<Rightarrow>
     (case policy self state input of
        Inl e \<Rightarrow> Inl e
      | Inr action \<Rightarrow>
     (case transition_scope (compiler self) state action of
        Inl e \<Rightarrow> Inl e
      | Inr scope \<Rightarrow>
     (case compile_probabilistic_cpfs (compiler self) scope (batch_size self) of
        Inl e \<Rightarrow> Inl e
      | Inr ((interm_fluents, next_state_fluents), scope_after) \<Rightarrow>
     (case MRMCell_log_prob tf interm_fluents next_state_fluents of
        Inl e \<Rightarrow> Inl e
      | Inr log_prob \<Rightarrow>
     (case compile_reward (compiler self) (scope_after ++ fluent_dict next_state_fluents) of
        Inl e \<Rightarrow> Inl e
      | Inr reward \<Rightarrow>
          (let interm_state = MRMCell_output tf interm_fluents;
               next_state = MRMCell_output tf next_state_fluents;
               output = (next_state, action, interm_state, tensor reward, log_prob)
           in Inr (output, next_state)))))))
      | _ \<Rightarrow> Inl ValueError))"


section \<open>The rollout driver\<close>

text \<open>
  Modelled from the spec: the class MarkovRecurrentModel and the enumeration
  ReparameterizationType. The tests import both from \<^verbatim>\<open>tfmdp.train.mrm\<close>, but the
  module defines the cell only. The driver is built on a cell and takes its batch size.
  The spec gives the tensors of the driver by their numbers (a countdown, zeros and ones,
  sums of rewards): their elements are real numbers.
\<close>

datatype ReparameterizationType = FULLY_REPARAMETERIZED | NOT_REPARAMETERIZED

record 'e MarkovRecurrentModel =
  mrm_cell :: "'e MRMCell"

text \<open>
  Modelled from the spec: \<^verbatim>\<open>timesteps(horizon)\<close>, a tensor \<^verbatim>\<open>[batch, horizon, 1]\<close> whose
  every batch row counts down \<^verbatim>\<open>horizon-1, horizon-2, ..., 0\<close>; a horizon or a batch size
  of zero or less is rejected. The element type is the float32 of the cell's inputs.
\<close>

definition timesteps :: "real MarkovRecurrentModel \<Rightarrow> int \<Rightarrow> error + real tensor" where
  "timesteps self horizon =
     (let batch = batch_size (mrm_cell self) in
      if batch \<le> 0 \<or> horizon \<le> 0 then Inl ValueError
      else Inr \<lparr>dtype = tf_float32,
                shape = [nat batch, nat horizon, 1],
                vals = concat (replicate (nat batch)
                         (map (\<lambda>t. real_of_int (horizon - 1 - int t)) [0..<nat horizon]))\<rparr>)"

text \<open>
  Modelled from the spec: \<^verbatim>\<open>stop_flags(horizon, reparam_type)\<close>, a constant tensor
  \<^verbatim>\<open>[batch, horizon, 1]\<close>: all zeros for FULLY_REPARAMETERIZED, all ones for
  NOT_REPARAMETERIZED.
\<close>

definition stop_flags ::
  "real MarkovRecurrentModel \<Rightarrow> int \<Rightarrow> ReparameterizationType \<Rightarrow> error + real tensor" where
  "stop_flags self horizon reparam_type =
     (let batch = batch_size (mrm_cell self) in
      if batch \<le> 0 \<or> horizon \<le> 0 then Inl ValueError
      else Inr \<lparr>dtype = tf_float32,
                shape = [nat batch, nat horizon, 1],
                vals = replicate (nat batch * nat horizon)
                         (case reparam_type of
                            FULLY_REPARAMETERIZED \<Rightarrow> 0
                          | NOT_REPARAMETERIZED \<Rightarrow> 1)\<rparr>)"

text \<open>
  Modelled from the spec: \<^verbatim>\<open>reward_to_go(rewards)\<close>, for a reward tensor
  \<^verbatim>\<open>[batch, horizon, 1]\<close>: at each batch row and time index \<open>t\<close> the sum of the rewards of
  the row from \<open>t\<close> on, with the shape and the element type of the input. A tensor of
  another form is a shape mismatch.
\<close>

definition reward_to_go :: "real MarkovRecurrentModel \<Rightarrow> real tensor \<Rightarrow> error + real tensor" where
  "reward_to_go self rewards =
     (case shape rewards of
        [b, h, c] \<Rightarrow>
          if c = 1 then
            Inr (rewards\<lparr>vals := concat (map (\<lambda>row. map (\<lambda>t. sum_list (drop t row)) [0..<h])
                                              (chunks b h (vals rewards)))\<rparr>)
          else Inl ValueError
      | _ \<Rightarrow> Inl ValueError)"


section \<open>PolicyOptimizationPlanner.from\_json\<close>

text \<open>
  The names the module \<^verbatim>\<open>tfmdp/train/planner.py\<close> binds at its top level (its imports,
  its two type aliases and its class), with the names every module has.
\<close>

definition planner_module_names :: "string list" where
  "planner_module_names =
     [''__name__'', ''__doc__'', ''__package__'', ''__loader__'', ''__spec__'', ''__file__'',
      ''__cached__'', ''__builtins__'',
      ''rddl2tf'', ''DeepReactivePolicy'', ''MarkovRecurrentModel'', ''PolicyLoss'', ''Optimizer'',
      ''Callback'', ''abc'', ''tf'', ''Callable'', ''Dict'', ''List'', ''Optional'', ''Sequence'',
      ''Callbacks'', ''PolicyOptimizationPlanner'']"

text \<open>The names of Python 3's \<^verbatim>\<open>builtins\<close> module.\<close>

definition python_builtin_names :: "string list" where
  "python_builtin_names =
     [''abs'', ''all'', ''any'', ''ascii'', ''bin'', ''bool'', ''breakpoint'', ''bytearray'', ''bytes'',
      ''callable'', ''chr'', ''classmethod'', ''compile'', ''complex'', ''copyright'', ''credits'',
      ''delattr'', ''dict'', ''dir'', ''divmod'', ''enumerate'', ''eval'', ''exec'', ''exit'',
      ''filter'', ''float'', ''format'', ''frozenset'', ''getattr'', ''globals'', ''hasattr'',
      ''hash'', ''help'', ''hex'', ''id'', ''input'', ''int'', ''isinstance'', ''issubclass'',
      ''iter'', ''len'', ''license'', ''list'', ''locals'', ''map'', ''max'', ''memoryview'',
      ''min'', ''next'', ''object'', ''oct'', ''open'', ''ord'', ''pow'', ''print'', ''property'',
      ''quit'', ''range'', ''repr'', ''reversed'', ''round'', ''set'', ''setattr'', ''slice'',
      ''sorted'', ''staticmethod'', ''str'', ''sum'', ''super'', ''tuple'', ''type'', ''vars'',
      ''zip'', ''__import__'', ''__build_class__'', ''__debug__'', ''__doc__'', ''__loader__'',
      ''__name__'', ''__package__'', ''__spec__'',
      ''None'', ''True'', ''False'', ''Ellipsis'', ''NotImplemented'',
      ''ArithmeticError'', ''AssertionError'', ''AttributeError'', ''BaseException'',
      ''BlockingIOError'', ''BrokenPipeError'', ''BufferError'', ''BytesWarning'',
      ''ChildProcessError'', ''ConnectionAbortedError'', ''ConnectionError'',
      ''ConnectionRefusedError'', ''ConnectionResetError'', ''DeprecationWarning'', ''EOFError'',
      ''EnvironmentError'', ''Exception'', ''FileExistsError'', ''FileNotFoundError'',
      ''FloatingPointError'', ''FutureWarning'', ''GeneratorExit'', ''IOError'', ''ImportError'',
      ''ImportWarning'', ''IndentationError'', ''IndexError'', ''InterruptedError'',
      ''IsADirectoryError'', ''KeyError'', ''KeyboardInterrupt'', ''LookupError'', ''MemoryError'',
      ''ModuleNotFoundError'', ''NameError'', ''NotADirectoryError'', ''NotImplementedError'',
      ''OSError'', ''OverflowError'', ''PendingDeprecationWarning'', ''PermissionError'',
      ''ProcessLookupError'', ''RecursionError'', ''ReferenceError'', ''ResourceWarning'',
      ''RuntimeError'', ''RuntimeWarning'', ''StopAsyncIteration'', ''StopIteration'',
      ''SyntaxError'', ''SyntaxWarning'', ''SystemError'', ''SystemExit'', ''TabError'',
      ''TimeoutError'', ''TypeError'', ''UnboundLocalError'', ''UnicodeDecodeError'',
      ''UnicodeEncodeError'', ''UnicodeError'', ''UnicodeTranslateError'', ''UnicodeWarning'',
      ''UserWarning'', ''ValueError'', ''Warning'', ''ZeroDivisionError'']"

text \<open>
  What the interpreter does with objects is not code of this repository: the object a
  bound global name holds, attribute access and a call are parameters, over any type
  \<open>'obj\<close> of objects.
\<close>

record 'obj python_runtime =
  global_object :: "string \<Rightarrow> 'obj"
  py_getattr :: "'obj \<Rightarrow> string \<Rightarrow> error + 'obj"
  py_call :: "'obj \<Rightarrow> 'obj list \<Rightarrow> error + 'obj"

text \<open>
  A name that the function does not assign is looked up in the module's globals, then in
  the builtins; a name bound in neither raises NameError.
\<close>

definition load_global :: "'obj python_runtime \<Rightarrow> string \<Rightarrow> error + 'obj" where
  "load_global rt name =
     (if name \<in> set planner_module_names then Inr (global_object rt name)
      else if name \<in> set python_builtin_names then Inr (global_object rt name)
      else Inl (NameError name))"

text \<open>
  \<^verbatim>\<open>config = json.loads(json_string); return cls(compiler, config)\<close>. The locals of the
  method are \<^verbatim>\<open>cls\<close>, \<^verbatim>\<open>compiler\<close>, \<^verbatim>\<open>json_config\<close> and \<^verbatim>\<open>config\<close>, so \<^verbatim>\<open>json\<close> and
  \<^verbatim>\<open>json_string\<close> are global loads. Python evaluates the callee \<^verbatim>\<open>json.loads\<close> first,
  then the argument, then the call.
\<close>

definition from_json ::
  "'obj python_runtime \<Rightarrow> ('c \<Rightarrow> 'obj \<Rightarrow> error + 'p) \<Rightarrow> 'c \<Rightarrow> string \<Rightarrow> error + 'p" where
  "from_json rt cls compiler_arg json_config =
     (case load_global rt ''json'' of
        Inl e \<Rightarrow> Inl e
      | Inr json \<Rightarrow>
     (case py_getattr rt json ''loads'' of
        Inl e \<Rightarrow> Inl e
      | Inr loads \<Rightarrow>
     (case load_global rt ''json_string'' of
        Inl e \<Rightarrow> Inl e
      | Inr json_string \<Rightarrow>
     (case py_call rt loads [json_string] of
        Inl e \<Rightarrow> Inl e
      | Inr config \<Rightarrow> cls compiler_arg config))))"


section \<open>Notions the properties are stated with\<close>

text \<open>The element of a tensor at a multi-index, in row-major order.\<close>

fun flat_index :: "nat list \<Rightarrow> nat list \<Rightarrow> nat" where
  "flat_index (d # ds) (i # is) = i * prod_list ds + flat_index ds is"
| "flat_index ds is = 0"

definition elem :: "'e tensor \<Rightarrow> nat list \<Rightarrow> 'e" where
  "elem t idx = vals t ! flat_index (shape t) idx"

text \<open>The elements of batch row \<open>b\<close> of a tensor: the \<open>b\<close>-th block along axis 0.\<close>

definition tensor_row :: "'e tensor \<Rightarrow> nat \<Rightarrow> 'e list" where
  "tensor_row t b =
     take (prod_list (tl (shape t))) (drop (b * prod_list (tl (shape t))) (vals t))"

text \<open>
  The spec's log-probability of a group of fluents at batch row \<open>b\<close>: the rows \<open>b\<close> of the
  log-probability tensors of the group, one after the other in the order of the group
  (the concatenation along the feature axis), reduced by the Sum kernel.
\<close>

definition spec_group_log_prob :: "'e tf_numerics \<Rightarrow> dtype \<Rightarrow> 'e FluentTriple list \<Rightarrow> nat \<Rightarrow> 'e" where
  "spec_group_log_prob tf d fluents b =
     sum_op tf d (concat (map (\<lambda>(_, _, log_prob).
                            case log_prob of None \<Rightarrow> [] | Some lp \<Rightarrow> tensor_row (tensor lp) b)
                          fluents))"

text \<open>
  The spec's step log-probability: a tensor \<^verbatim>\<open>[batch, 1]\<close> that holds, at every batch
  row, the Add of the log-probability of the intermediate group and that of the
  next-state group.
\<close>

definition spec_step_log_prob ::
  "'e tf_numerics \<Rightarrow> nat \<Rightarrow> dtype \<Rightarrow> 'e FluentTriple list \<Rightarrow> 'e FluentTriple list \<Rightarrow> 'e tensor" where
  "spec_step_log_prob tf batch d interm_fluents next_state_fluents =
     \<lparr>dtype = d, shape = [batch, 1],
      vals = map (\<lambda>b. add_op tf d (spec_group_log_prob tf d interm_fluents b)
                                   (spec_group_log_prob tf d next_state_fluents b))
                 [0..<batch]\<rparr>"

text \<open>A well-formed tensor \<^verbatim>\<open>[batch, k]\<close> of element type \<open>d\<close>, for some width \<open>k\<close>.\<close>

definition batch_matrix :: "nat \<Rightarrow> dtype \<Rightarrow> 'e tensor \<Rightarrow> bool" where
  "batch_matrix batch d t =
     (dtype t = d \<and> wf_tensor t \<and> length (shape t) = 2 \<and> hd (shape t) = batch)"

text \<open>
  A fluent triple as the data model has it: its log-probability is present and is a
  well-formed tensor \<^verbatim>\<open>[batch, k]\<close> of element type \<open>d\<close>.
\<close>

definition log_prob_shaped :: "nat \<Rightarrow> dtype \<Rightarrow> 'e FluentTriple \<Rightarrow> bool" where
  "log_prob_shaped batch d tr =
     (case snd (snd tr) of
        None \<Rightarrow> False
      | Some lp \<Rightarrow> batch_matrix batch d (tensor lp))"

text \<open>
  The spec's updated scope: a name of a next-state fluent resolves to the sampled fluent
  (of the last triple of that name, should a name come twice); every other name resolves
  as in the scope before the update.
\<close>

definition spec_updated_scope :: "'e Scope \<Rightarrow> 'e FluentTriple list \<Rightarrow> 'e Scope" where
  "spec_updated_scope scope fluents name =
     (case filter (\<lambda>tr. fst tr = name) fluents of
        [] \<Rightarrow> scope name
      | tr # trs \<Rightarrow> Some (fst (snd (last (tr # trs)))))"

text \<open>The components of the output of a step.\<close>

definition output_reward :: "'e CellOutput \<Rightarrow> 'e tensor" where
  "output_reward output = (case output of (next_state, action, interm_state, reward, log_prob) \<Rightarrow> reward)"

definition output_log_prob :: "'e CellOutput \<Rightarrow> 'e tensor" where
  "output_log_prob output =
     (case output of (next_state, action, interm_state, reward, log_prob) \<Rightarrow> log_prob)"


section \<open>A concrete cell\<close>

text \<open>
  Numerics for the concrete cell: elements are real numbers, Add and Sum are the sum of
  the reals and Cast keeps the number. On the few small values of the concrete cell
  (integers and multiples of 1/4) this is what float32 computes.
\<close>

definition example_numerics :: "real tf_numerics" where
  "example_numerics =
     \<lparr>add_op = (\<lambda>d x y. x + y), sum_op = (\<lambda>d xs. sum_list xs), cast_op = (\<lambda>d d' x. x)\<rparr>"

text \<open>
  A batch of two rows, one state variable, one action variable, two intermediate fluents
  (an integer one and a boolean one) and one next-state fluent whose first sampled value
  is the parameter \<open>v\<close>. Sampling writes the fluent \<^verbatim>\<open>seen\<close> into the scope it is given.
  The reward reads the next-state fluent and \<^verbatim>\<open>seen\<close> in the scope it is given. The
  policy returns one tensor of the element type \<open>d\<close>.
\<close>

definition example_state :: "real tensor list" where
  "example_state = [\<lparr>dtype = tf_float32, shape = [2, 1], vals = [0, 1]\<rparr>]"

definition example_input :: "real tensor" where
  "example_input = \<lparr>dtype = tf_float32, shape = [2, 2], vals = [40, 0, 40, 0]\<rparr>"

definition example_interm_fluents :: "real FluentTriple list" where
  "example_interm_fluents =
     [(''wind'', \<lparr>tensor = \<lparr>dtype = tf_int32, shape = [2, 1], vals = [3, 4]\<rparr>\<rparr>,
         Some \<lparr>tensor = \<lparr>dtype = tf_float32, shape = [2, 1], vals = [-1, -2]\<rparr>\<rparr>),
      (''slip'', \<lparr>tensor = \<lparr>dtype = tf_bool, shape = [2, 1], vals = [1, 0]\<rparr>\<rparr>,
         Some \<lparr>tensor = \<lparr>dtype = tf_float32, shape = [2, 1], vals = [-3, -5]\<rparr>\<rparr>)]"

definition example_next_state_fluents :: "real \<Rightarrow> real FluentTriple list" where
  "example_next_state_fluents v =
     [(''next_x'', \<lparr>tensor = \<lparr>dtype = tf_float32, shape = [2, 1], vals = [v, 2]\<rparr>\<rparr>,
         Some \<lparr>tensor = \<lparr>dtype = tf_float32, shape = [2, 1], vals = [-1/2, -1/4]\<rparr>\<rparr>)]"

definition example_action :: "dtype \<Rightarrow> real tensor list" where
  "example_action d = [\<lparr>dtype = d, shape = [2, 1], vals = [1, 1]\<rparr>]"

definition example_scope :: "dtype \<Rightarrow> real Scope" where
  "example_scope d =
     [''x'' \<mapsto> \<lparr>tensor = \<lparr>dtype = tf_float32, shape = [2, 1], vals = [0, 1]\<rparr>\<rparr>,
      ''move'' \<mapsto> \<lparr>tensor = \<lparr>dtype = d, shape = [2, 1], vals = [1, 1]\<rparr>\<rparr>]"

definition example_seen :: "real TensorFluent" where
  "example_seen = \<lparr>tensor = \<lparr>dtype = tf_float32, shape = [2, 1], vals = [10, 20]\<rparr>\<rparr>"

definition example_reward :: "real Scope \<Rightarrow> error + real TensorFluent" where
  "example_reward scope =
     (case scope ''next_x'' of
        None \<Rightarrow> Inl KeyError
      | Some f \<Rightarrow>
          (case scope ''seen'' of
             None \<Rightarrow> Inl KeyError
           | Some g \<Rightarrow>
               Inr \<lparr>tensor = \<lparr>dtype = tf_float32, shape = [2, 1],
                               vals = map2 (+) (vals (tensor f)) (vals (tensor g))\<rparr>\<rparr>))"

definition example_compiler :: "real FluentTriple list \<Rightarrow> real \<Rightarrow> real Compiler" where
  "example_compiler interm v =
     \<lparr>state_size = [[1]], action_size = [[1]], interm_size = map (\<lambda>tr. [1]) interm,
      compile_initial_state = (\<lambda>b. Inr example_state),
      transition_scope = (\<lambda>state action.
         case (state, action) of
           (s # _, a # _) \<Rightarrow> Inr [''x'' \<mapsto> \<lparr>tensor = s\<rparr>, ''move'' \<mapsto> \<lparr>tensor = a\<rparr>]
         | _ \<Rightarrow> Inl ValueError),
      compile_probabilistic_cpfs = (\<lambda>scope b.
         Inr ((interm, example_next_state_fluents v), scope(''seen'' \<mapsto> example_seen))),
      compile_reward = example_reward\<rparr>"

definition example_policy :: "dtype \<Rightarrow> real DeepReactivePolicy" where
  "example_policy d = (\<lambda>state input. Inr (example_action d))"

definition example_cell :: "real \<Rightarrow> dtype \<Rightarrow> real MRMCell" where
  "example_cell v d =
     \<lparr>compiler = example_compiler example_interm_fluents v, policy = example_policy d,
      batch_size = 2\<rparr>"

text \<open>The same cell on a model that has no intermediate fluent.\<close>

definition example_cell_no_interm :: "real MRMCell" where
  "example_cell_no_interm =
     \<lparr>compiler = example_compiler [] 7, policy = example_policy tf_float32, batch_size = 2\<rparr>"

text \<open>A rollout driver on the concrete cell, and a reward tensor of two rows and three steps.\<close>

definition example_model :: "real MarkovRecurrentModel" where
  "example_model = \<lparr>mrm_cell = example_cell 7 tf_float32\<rparr>"

definition example_rewards :: "real tensor" where
  "example_rewards = \<lparr>dtype = tf_float32, shape = [2, 3, 1], vals = [1, 2, 3, -1, 0, 5]\<rparr>"


section \<open>Properties of the cell\<close>

text \<open>
  C7. The output size of the cell is the 5-tuple of the compiler's state, action and
  intermediate sizes followed by 1 (the reward width) and 1 (the log-probability width).
\<close>

theorem output_size_five_tuple:
  "MRMCell_output_size self =
     (state_size (compiler self), action_size (compiler self), interm_size (compiler self), 1, 1)
   \<and> MRMCell_output_size self =
     (MRMCell_state_size self, MRMCell_action_size self, MRMCell_interm_size self, 1, 1)"
  by (simp add: MRMCell_output_size_def MRMCell_state_size_def MRMCell_action_size_def
      MRMCell_interm_size_def)

subsection \<open>The concrete cell, evaluated\<close>

lemmas example_defs = MRMCell_call_def example_cell_def example_cell_no_interm_def
     example_input_def example_state_def example_compiler_def example_policy_def
     example_action_def example_interm_fluents_def example_next_state_fluents_def
     example_numerics_def example_reward_def example_seen_def
     tf_split_axis1_def MRMCell_log_prob_def group_log_prob_def
     tf_concat_axis1_def tf_reduce_sum_axis1_def tf_add_def tf_expand_dims_last_def chunks_def
     MRMCell_output_def MRMCell_tensors_def MRMCell_dtype_def tf_cast_def

lemma example_call:
  "MRMCell_call example_numerics (example_cell v d) example_input example_state =
   Inr (([\<lparr>dtype = tf_float32, shape = [2, 1], vals = [v, 2]\<rparr>],
         [\<lparr>dtype = d, shape = [2, 1], vals = [1, 1]\<rparr>],
         [\<lparr>dtype = tf_float32, shape = [2, 1], vals = [3, 4]\<rparr>,
          \<lparr>dtype = tf_float32, shape = [2, 1], vals = [1, 0]\<rparr>],
         \<lparr>dtype = tf_float32, shape = [2, 1], vals = [v + 10, 22]\<rparr>,
         \<lparr>dtype = tf_float32, shape = [2, 1], vals = [- (9 / 2), - (29 / 4)]\<rparr>),
        [\<lparr>dtype = tf_float32, shape = [2, 1], vals = [v, 2]\<rparr>])"
  by (simp add: example_defs upt_conv_Cons numeral_2_eq_2 Let_def)

lemma example_input_shape: "shape example_input = [2, 2]"
  by (simp add: example_input_def)

lemma example_policy_call:
  "policy (example_cell v d) example_state example_input = Inr (example_action d)"
  by (simp add: example_cell_def example_policy_def)

lemma example_transition_scope:
  "transition_scope (compiler (example_cell v d)) example_state (example_action d) =
     Inr (example_scope d)"
  by (simp add: example_cell_def example_compiler_def example_state_def example_action_def
      example_scope_def)

lemma example_cpfs:
  "compile_probabilistic_cpfs (compiler (example_cell v d)) (example_scope d)
     (batch_size (example_cell v d)) =
   Inr ((example_interm_fluents, example_next_state_fluents v),
        (example_scope d)(''seen'' \<mapsto> example_seen))"
  by (simp add: example_cell_def example_compiler_def)

lemma example_reward_call:
  "compile_reward (compiler (example_cell v d))
     (spec_updated_scope ((example_scope d)(''seen'' \<mapsto> example_seen))
        (example_next_state_fluents v)) =
   Inr \<lparr>tensor = \<lparr>dtype = tf_float32, shape = [2, 1], vals = [v + 10, 22]\<rparr>\<rparr>"
  by (simp add: example_cell_def example_compiler_def example_reward_def spec_updated_scope_def
      example_next_state_fluents_def example_scope_def example_seen_def)

lemma example_interm_shaped: "list_all (log_prob_shaped 2 tf_float32) example_interm_fluents"
  by (simp add: example_interm_fluents_def log_prob_shaped_def batch_matrix_def wf_tensor_def)

lemma example_next_state_shaped:
  "list_all (log_prob_shaped 2 tf_float32) (example_next_state_fluents v)"
  by (simp add: example_next_state_fluents_def log_prob_shaped_def batch_matrix_def wf_tensor_def)

lemma example_groups_not_empty:
  "example_interm_fluents \<noteq> []" "example_next_state_fluents v \<noteq> []"
  by (simp_all add: example_interm_fluents_def example_next_state_fluents_def)

lemma example_step_log_prob:
  "spec_step_log_prob example_numerics 2 tf_float32 example_interm_fluents
     (example_next_state_fluents v) =
   \<lparr>dtype = tf_float32, shape = [2, 1], vals = [(-1 + -3) + -1/2, (-2 + -5) + -1/4]\<rparr>"
  by (simp add: spec_step_log_prob_def spec_group_log_prob_def tensor_row_def
      example_numerics_def example_interm_fluents_def example_next_state_fluents_def
      upt_conv_Cons numeral_2_eq_2)

subsection \<open>The step log-probability\<close>

lemma length_chunks: "length (chunks n sz xs) = n"
  by (simp add: chunks_def)

lemma nth_chunks: "i < n \<Longrightarrow> chunks n sz xs ! i = take sz (drop (i * sz) xs)"
  by (simp add: chunks_def)

lemma drop_concat_uniform:
  "\<forall>xs \<in> set xss. length xs = sz \<Longrightarrow> drop (i * sz) (concat xss) = concat (drop i xss)"
proof (induction xss arbitrary: i)
  case Nil
  then show ?case by simp
next
  case (Cons xs xss)
  show ?case
  proof (cases i)
    case 0
    then show ?thesis by simp
  next
    case (Suc j)
    with Cons show ?thesis by simp
  qed
qed

lemma chunks_concat:
  assumes "\<forall>xs \<in> set xss. length xs = sz"
  shows "chunks (length xss) sz (concat xss) = xss"
proof (rule nth_equalityI)
  show "length (chunks (length xss) sz (concat xss)) = length xss"
    by (simp add: length_chunks)
next
  fix i assume "i < length (chunks (length xss) sz (concat xss))"
  then have i: "i < length xss" by (simp add: length_chunks)
  then have d: "drop i xss = xss ! i # drop (Suc i) xss"
    by (simp add: Cons_nth_drop_Suc)
  from i assms have "length (xss ! i) = sz" by simp
  with i d show "chunks (length xss) sz (concat xss) ! i = xss ! i"
    by (simp add: nth_chunks drop_concat_uniform [OF assms])
qed

lemma chunks_width_one:
  assumes "length row = k"
  shows "map (\<lambda>c. c ! 0) (chunks k 1 row) = row"
proof (rule nth_equalityI)
  show "length (map (\<lambda>c. c ! 0) (chunks k 1 row)) = length row"
    using assms by (simp add: length_chunks)
next
  fix i assume "i < length (map (\<lambda>c. c ! 0) (chunks k 1 row))"
  then have "i < k" by (simp add: length_chunks)
  with assms show "map (\<lambda>c. c ! 0) (chunks k 1 row) ! i = row ! i"
    by (simp add: length_chunks nth_chunks)
qed


lemma matrix_shape:
  assumes "length (shape t) = 2" and "hd (shape t) = B"
  shows "shape t = [B, shape t ! 1]"
proof -
  from assms(1) obtain a b where "shape t = [a, b]"
    by (cases "shape t"; cases "tl (shape t)") auto
  with assms(2) show ?thesis by simp
qed

lemma matrix_row_length:
  assumes "wf_tensor t" and "shape t = [B, k]" and "i < B"
  shows "length (tensor_row t i) = k"
proof -
  from assms(3) have "Suc i * k \<le> B * k" by (intro mult_le_mono1) simp
  then have "k \<le> B * k - i * k" by simp
  with assms(1,2) show ?thesis
    by (simp add: tensor_row_def wf_tensor_def)
qed

lemma matrix_row_chunk:
  assumes "shape t = [B, k]" and "i < B"
  shows "chunks B k (vals t) ! i = tensor_row t i"
  using assms by (simp add: nth_chunks tensor_row_def)

lemma batch_matrix_shape: "batch_matrix B d t \<Longrightarrow> shape t = [B, shape t ! 1]"
  unfolding batch_matrix_def by (blast intro: matrix_shape)

lemma batch_matrix_row_length:
  assumes "batch_matrix B d t" and "i < B"
  shows "length (tensor_row t i) = shape t ! 1"
proof -
  from assms(1) have "wf_tensor t" by (simp add: batch_matrix_def)
  then show ?thesis
    using batch_matrix_shape [OF assms(1)] assms(2) by (rule matrix_row_length)
qed

lemma batch_matrix_row_chunk:
  assumes "batch_matrix B d t" and "i < B"
  shows "chunks B (shape t ! 1) (vals t) ! i = tensor_row t i"
  using batch_matrix_shape [OF assms(1)] assms(2) by (rule matrix_row_chunk)

lemma concat_rows_length:
  assumes "\<forall>t \<in> set ts. batch_matrix B d t" and "i < B"
  shows "length (concat (map (\<lambda>u. tensor_row u i) ts)) = sum_list (map (\<lambda>u. shape u ! 1) ts)"
proof -
  have "map (\<lambda>u. length (tensor_row u i)) ts = map (\<lambda>u. shape u ! 1) ts"
    using assms by (intro map_cong [OF refl]) (blast intro: batch_matrix_row_length)
  then have e: "sum_list (map (\<lambda>u. length (tensor_row u i)) ts) = sum_list (map (\<lambda>u. shape u ! 1) ts)"
    by (rule arg_cong)
  have "length (concat (map (\<lambda>u. tensor_row u i) ts))
          = sum_list (map (\<lambda>u. length (tensor_row u i)) ts)"
    by (simp add: length_concat comp_def)
  also note e
  finally show ?thesis .
qed

lemma tf_concat_axis1_many:
  "tf_concat_axis1 (t # u # rest) =
     (if list_ex (\<lambda>v. dtype v \<noteq> dtype t) (t # u # rest) then Inl TypeError
      else if list_ex (\<lambda>v. length (shape v) < 2) (t # u # rest) then Inl ValueError
      else if list_ex (\<lambda>v. hd (shape v) \<noteq> hd (shape t) \<or> drop 2 (shape v) \<noteq> drop 2 (shape t))
                (t # u # rest)
        then Inl ValueError
      else
         Inr \<lparr>dtype = dtype t,
              shape = hd (shape t) # sum_list (map (\<lambda>v. shape v ! 1) (t # u # rest)) # drop 2 (shape t),
              vals = concat (map (\<lambda>i. concat (map (\<lambda>v. chunks (hd (shape t))
                                    (shape v ! 1 * prod_list (drop 2 (shape t))) (vals v) ! i) (t # u # rest)))
                                 [0..<hd (shape t)])\<rparr>)"
  unfolding tf_concat_axis1_def Let_def by (simp only: list.case)

lemma concat_matrices:
  assumes "ts \<noteq> []" and all: "\<forall>t \<in> set ts. batch_matrix B d t"
  shows "\<exists>c. tf_concat_axis1 ts = Inr c \<and> dtype c = d
            \<and> shape c = [B, sum_list (map (\<lambda>u. shape u ! 1) ts)]
            \<and> chunks B (sum_list (map (\<lambda>u. shape u ! 1) ts)) (vals c) =
                map (\<lambda>i. concat (map (\<lambda>u. tensor_row u i) ts)) [0..<B]"
proof -
  let ?K = "sum_list (map (\<lambda>u. shape u ! 1) ts)"
  let ?rows = "map (\<lambda>i. concat (map (\<lambda>u. tensor_row u i) ts)) [0..<B]"
  have bm: "batch_matrix B d u" if "u \<in> set ts" for u
    using that all by blast
  have sh: "shape u = [B, shape u ! 1]" if "u \<in> set ts" for u
    using bm [OF that] by (rule batch_matrix_shape)
  have dt: "dtype u = d" if "u \<in> set ts" for u
    using bm [OF that] by (simp add: batch_matrix_def)
  show ?thesis
  proof (cases ts)
    case Nil
    with assms(1) show ?thesis by simp
  next
    case (Cons t rest)
    show ?thesis
    proof (cases rest)
      case Nil
      with Cons have ts: "ts = [t]" by simp
      then have bt: "batch_matrix B d t" using bm by simp
      have "chunks B (shape t ! 1) (vals t) = map (\<lambda>i. tensor_row t i) [0..<B]"
        by (rule nth_equalityI)
           (simp_all add: length_chunks batch_matrix_row_chunk [OF bt] del: One_nat_def)
      with ts batch_matrix_shape [OF bt] bt show ?thesis
        by (simp add: tf_concat_axis1_def batch_matrix_def del: One_nat_def)
    next
      case (Cons u rest')
      with \<open>ts = t # rest\<close> have ts: "ts = t # u # rest'" by simp
      have t_in: "t \<in> set ts" using ts by simp
      have c1: "\<not> list_ex (\<lambda>u. dtype u \<noteq> dtype t) ts"
        using dt by (auto simp: list_ex_iff t_in)
      have c2: "\<not> list_ex (\<lambda>u. length (shape u) < 2) ts"
        using all by (auto simp: list_ex_iff batch_matrix_def)
      have d2: "drop 2 (shape u) = []" if "u \<in> set ts" for u
        using bm [OF that] by (simp add: batch_matrix_def)
      have h: "hd (shape u) = B" if "u \<in> set ts" for u
        using bm [OF that] by (simp add: batch_matrix_def)
      have c3: "\<not> list_ex (\<lambda>u. hd (shape u) \<noteq> hd (shape t) \<or> drop 2 (shape u) \<noteq> drop 2 (shape t)) ts"
        using d2 h t_in by (auto simp: list_ex_iff)
      define c where "c = \<lparr>dtype = d, shape = [B, ?K],
          vals = concat (map (\<lambda>i. concat (map (\<lambda>u. chunks B (shape u ! 1 * 1) (vals u) ! i) ts)) [0..<B])\<rparr>"
      have eq: "tf_concat_axis1 ts = Inr c"
        using c1 c2 c3 unfolding c_def ts tf_concat_axis1_many
        using d2 [OF t_in] h [OF t_in] dt [OF t_in]
        by (simp only: if_False prod_list.Nil)
      have rows: "concat (map (\<lambda>u. chunks B (shape u ! 1 * 1) (vals u) ! i) ts)
                   = concat (map (\<lambda>u. tensor_row u i) ts)" if "i < B" for i
      proof -
        have "chunks B (shape u ! 1 * 1) (vals u) ! i = tensor_row u i" if "u \<in> set ts" for u
          using batch_matrix_row_chunk [OF bm [OF that] \<open>i < B\<close>] by (simp del: One_nat_def)
        then have "map (\<lambda>u. chunks B (shape u ! 1 * 1) (vals u) ! i) ts = map (\<lambda>u. tensor_row u i) ts"
          by (intro map_cong [OF refl])
        then show ?thesis by (rule arg_cong)
      qed
      have "map (\<lambda>i. concat (map (\<lambda>u. chunks B (shape u ! 1 * 1) (vals u) ! i) ts)) [0..<B] = ?rows"
        by (intro map_cong [OF refl] rows) simp
      then have e: "concat (map (\<lambda>i. concat (map (\<lambda>u. chunks B (shape u ! 1 * 1) (vals u) ! i) ts)) [0..<B])
                  = concat ?rows"
        by (rule arg_cong)
      have "vals c =
          concat (map (\<lambda>i. concat (map (\<lambda>u. chunks B (shape u ! 1 * 1) (vals u) ! i) ts)) [0..<B])"
        by (simp add: c_def)
      also note e
      finally have v: "vals c = concat ?rows" .
      have "chunks (length ?rows) ?K (concat ?rows) = ?rows"
        by (rule chunks_concat) (auto simp: concat_rows_length [OF all])
      with v have "chunks B ?K (vals c) = ?rows" by simp
      with eq show ?thesis by (simp add: c_def)
    qed
  qed
qed

lemma reduce_sum_matrix:
  assumes "dtype c = d" and "d \<noteq> tf_bool" and "shape c = [B, K]"
      and "chunks B K (vals c) = rows" and "\<forall>r \<in> set rows. length r = K"
  shows "tf_reduce_sum_axis1 tf c = Inr \<lparr>dtype = d, shape = [B], vals = map (sum_op tf d) rows\<rparr>"
proof -
  have "sum_op tf d (map (\<lambda>c. c ! 0) (chunks K 1 row)) = sum_op tf d row" if "row \<in> set rows" for row
  proof -
    from that assms(5) have "length row = K" by simp
    then have "map (\<lambda>c. c ! 0) (chunks K 1 row) = row" by (rule chunks_width_one)
    then show ?thesis by (rule arg_cong)
  qed
  then have "map (\<lambda>row. sum_op tf d (map (\<lambda>c. c ! 0) (chunks K 1 row))) rows = map (sum_op tf d) rows"
    by (intro map_cong [OF refl])
  then have "concat (map (\<lambda>row. [sum_op tf d (map (\<lambda>c. c ! 0) (chunks K 1 row))]) rows)
               = map (sum_op tf d) rows"
    by simp
  with assms(1-4) show ?thesis
    by (simp add: tf_reduce_sum_axis1_def)
qed

lemma log_prob_tensors_shaped:
  assumes "list_all (log_prob_shaped B d) fluents"
  shows "\<exists>ts. log_prob_tensors fluents = Inr ts \<and> (\<forall>t \<in> set ts. batch_matrix B d t)
            \<and> (ts = [] \<longleftrightarrow> fluents = [])
            \<and> (\<forall>b. concat (map (\<lambda>t. tensor_row t b) ts) =
                     concat (map (\<lambda>(_, _, log_prob).
                                   case log_prob of None \<Rightarrow> [] | Some lp \<Rightarrow> tensor_row (tensor lp) b)
                                 fluents))"
  using assms
proof (induction fluents)
  case Nil
  then show ?case by simp
next
  case (Cons tr fluents)
  obtain n f l where tr: "tr = (n, f, l)" by (cases tr)
  from Cons.prems tr obtain lp where l: "l = Some lp" and bm: "batch_matrix B d (tensor lp)"
    by (auto simp: log_prob_shaped_def split: option.splits)
  from Cons obtain ts where ts: "log_prob_tensors fluents = Inr ts"
      "\<forall>t \<in> set ts. batch_matrix B d t"
      "\<forall>b. concat (map (\<lambda>t. tensor_row t b) ts) =
             concat (map (\<lambda>(_, _, log_prob).
                           case log_prob of None \<Rightarrow> [] | Some lp \<Rightarrow> tensor_row (tensor lp) b)
                         fluents)"
    by auto
  from ts(1,2,3) bm show ?case
    by (simp add: tr l)
qed

lemma group_log_prob_Nil: "group_log_prob tf [] = Inl ValueError"
  by (simp add: group_log_prob_def tf_concat_axis1_def)

lemma group_log_prob_rows:
  assumes "fluents \<noteq> []" and "list_all (log_prob_shaped B d) fluents"
  shows "group_log_prob tf fluents =
           (if d = tf_bool then Inl TypeError
            else Inr \<lparr>dtype = d, shape = [B], vals = map (spec_group_log_prob tf d fluents) [0..<B]\<rparr>)"
proof -
  from log_prob_tensors_shaped [OF assms(2)] assms(1)
  obtain ts where ts: "log_prob_tensors fluents = Inr ts" "\<forall>t \<in> set ts. batch_matrix B d t"
      "ts \<noteq> []"
      and rows: "\<And>b. concat (map (\<lambda>t. tensor_row t b) ts) =
             concat (map (\<lambda>(_, _, log_prob).
                           case log_prob of None \<Rightarrow> [] | Some lp \<Rightarrow> tensor_row (tensor lp) b)
                         fluents)"
    by auto
  let ?K = "sum_list (map (\<lambda>u. shape u ! 1) ts)"
  let ?rows = "map (\<lambda>i. concat (map (\<lambda>u. tensor_row u i) ts)) [0..<B]"
  from concat_matrices [OF ts(3) ts(2)]
  obtain c where c: "tf_concat_axis1 ts = Inr c" "dtype c = d" "shape c = [B, ?K]"
      "chunks B ?K (vals c) = ?rows"
    by blast
  show ?thesis
  proof (cases "d = tf_bool")
    case True
    with ts(1) c(1,2) show ?thesis
      by (simp add: group_log_prob_def tf_reduce_sum_axis1_def)
  next
    case False
    have len: "\<forall>r \<in> set ?rows. length r = ?K"
      by (auto simp: concat_rows_length [OF ts(2)])
    have "map (sum_op tf d) ?rows = map (spec_group_log_prob tf d fluents) [0..<B]"
      by (simp add: spec_group_log_prob_def rows)
    with reduce_sum_matrix [OF c(2) False c(3) c(4) len, of tf] ts(1) c(1) False show ?thesis
      by (simp add: group_log_prob_def)
  qed
qed

lemma MRMCell_log_prob_returns:
  assumes "interm_fluents \<noteq> []" and "next_state_fluents \<noteq> []"
      and "list_all (log_prob_shaped B d) interm_fluents"
      and "list_all (log_prob_shaped B d) next_state_fluents"
      and "d \<noteq> tf_bool"
  shows "MRMCell_log_prob tf interm_fluents next_state_fluents =
           Inr (spec_step_log_prob tf B d interm_fluents next_state_fluents)"
  using group_log_prob_rows [OF assms(1,3), of tf] group_log_prob_rows [OF assms(2,4), of tf] assms(5)
  by (simp add: MRMCell_log_prob_def tf_add_def tf_expand_dims_last_def map2_map_map
      spec_step_log_prob_def)

lemma MRMCell_log_prob_empty_group:
  "MRMCell_log_prob tf [] next_state_fluents = Inl ValueError"
  by (simp add: MRMCell_log_prob_def group_log_prob_Nil)

subsection \<open>A step that returns\<close>

text \<open>
  The update of the scope is the spec's updated scope, and a step whose collaborators
  return, on a model with both groups of fluents, returns: its whole result is known.
\<close>

lemma tf_split_input:
  assumes "shape input = [n, 2]"
  shows "\<exists>timestep stop_flag. tf_split_axis1 input [1, 1] = Inr [timestep, stop_flag]"
  using assms by (simp add: tf_split_axis1_def)

lemma fluent_dict_last:
  "fluent_dict fluents name =
     (case filter (\<lambda>tr. fst tr = name) fluents of
        [] \<Rightarrow> None
      | tr # trs \<Rightarrow> Some (fst (snd (last (tr # trs)))))"
proof (induction fluents)
  case Nil
  then show ?case by simp
next
  case (Cons tr fluents)
  obtain n f l where tr: "tr = (n, f, l)" by (cases tr)
  show ?case
    using Cons.IH by (auto simp: tr map_add_def split: list.splits option.splits)
qed

lemma update_is_spec_updated_scope:
  "scope ++ fluent_dict fluents = spec_updated_scope scope fluents"
proof
  fix name
  show "(scope ++ fluent_dict fluents) name = spec_updated_scope scope fluents name"
    by (simp add: map_add_def spec_updated_scope_def fluent_dict_last split: list.splits)
qed

lemma spec_updated_scope_other:
  assumes "name \<notin> fst ` set fluents"
  shows "spec_updated_scope scope fluents name = scope name"
proof -
  from assms have "filter (\<lambda>tr. fst tr = name) fluents = []"
    by (auto simp: filter_empty_conv)
  then show ?thesis by (simp add: spec_updated_scope_def)
qed

lemma spec_updated_scope_next:
  assumes "distinct (map fst fluents)" and "(name, fluent, lp) \<in> set fluents"
  shows "spec_updated_scope scope fluents name = Some fluent"
  using assms
proof (induction fluents rule: rev_induct)
  case Nil
  then show ?case by simp
next
  case (snoc tr fluents)
  show ?case
  proof (cases "fst tr = name")
    case True
    with snoc.prems have t: "tr = (name, fluent, lp)"
      by (auto simp: image_iff)
    from True snoc.prems have "name \<notin> fst ` set fluents" by auto
    then have "filter (\<lambda>tr. fst tr = name) fluents = []"
      by (auto simp: filter_empty_conv)
    with t show ?thesis
      by (simp add: spec_updated_scope_def)
  next
    case False
    with snoc.prems have "distinct (map fst fluents)" "(name, fluent, lp) \<in> set fluents"
      by auto
    then have "spec_updated_scope scope fluents name = Some fluent" by (rule snoc.IH)
    with False show ?thesis by (simp add: spec_updated_scope_def)
  qed
qed

lemma MRMCell_call_returns:
  assumes "shape input = [n, 2]"
      and "policy self state input = Inr act"
      and "transition_scope (compiler self) state act = Inr scope"
      and "compile_probabilistic_cpfs (compiler self) scope (batch_size self) =
             Inr ((interm_fluents, next_state_fluents), scope_after)"
      and "interm_fluents \<noteq> []" and "next_state_fluents \<noteq> []"
      and "list_all (log_prob_shaped B d) interm_fluents"
      and "list_all (log_prob_shaped B d) next_state_fluents"
      and "d \<noteq> tf_bool"
      and "compile_reward (compiler self) (spec_updated_scope scope_after next_state_fluents) = Inr r"
  shows "MRMCell_call tf self input state =
           Inr ((MRMCell_output tf next_state_fluents, act, MRMCell_output tf interm_fluents,
                 tensor r, spec_step_log_prob tf B d interm_fluents next_state_fluents),
                MRMCell_output tf next_state_fluents)"
proof -
  from tf_split_input [OF assms(1)] obtain timestep stop_flag
    where s: "tf_split_axis1 input [1, 1] = Inr [timestep, stop_flag]" by blast
  note l = MRMCell_log_prob_returns [OF assms(5,6,7,8,9), of tf]
  from assms(10) have r: "compile_reward (compiler self) (scope_after ++ fluent_dict next_state_fluents) = Inr r"
    by (simp add: update_is_spec_updated_scope)
  show ?thesis
    unfolding MRMCell_call_def s by (simp add: assms(2,3,4) l r Let_def)
qed

lemma MRMCell_dtype_float32: "dtype (MRMCell_dtype tf t) = tf_float32"
  by (simp add: MRMCell_dtype_def tf_cast_def)

lemma MRMCell_output_float32:
  "list_all (\<lambda>t. dtype t = tf_float32) (MRMCell_output tf fluents)"
  by (simp add: MRMCell_output_def list_all_iff MRMCell_dtype_float32)

text \<open>
  C1, for the models that have at least one intermediate and one next-state fluent. When
  the input is \<^verbatim>\<open>[n, 2]\<close>, the policy, the transition scope, the sampling and the reward
  return, and every fluent of the two non-empty groups carries a log-probability tensor
  \<^verbatim>\<open>[batch, k]\<close> of one numeric element type, the step returns, and the log-probability
  of its output has the shape \<^verbatim>\<open>[batch, 1]\<close> and holds, at every batch row, the Add of two
  Sums: that of the row over the concatenated log-probability tensors of the intermediate
  fluents and that of the row over the concatenated ones of the next-state fluents.
\<close>

theorem step_log_prob_is_sum_of_groups:
  assumes "shape input = [n, 2]"
      and "policy self state input = Inr act"
      and "transition_scope (compiler self) state act = Inr scope"
      and "compile_probabilistic_cpfs (compiler self) scope (batch_size self) =
             Inr ((interm_fluents, next_state_fluents), scope_after)"
      and "interm_fluents \<noteq> []" and "next_state_fluents \<noteq> []"
      and "list_all (log_prob_shaped B d) interm_fluents"
      and "list_all (log_prob_shaped B d) next_state_fluents"
      and "d \<noteq> tf_bool"
      and "compile_reward (compiler self) (spec_updated_scope scope_after next_state_fluents) = Inr r"
  shows "\<exists>output carried.
           MRMCell_call tf self input state = Inr (output, carried)
         \<and> output_log_prob output = spec_step_log_prob tf B d interm_fluents next_state_fluents
         \<and> shape (output_log_prob output) = [B, 1]"
  using MRMCell_call_returns [OF assms, of tf]
  by (simp add: output_log_prob_def spec_step_log_prob_def)

theorem step_log_prob_is_sum_of_groups_witness:
  "\<exists>output carried.
     MRMCell_call example_numerics (example_cell 7 tf_float32) example_input example_state =
       Inr (output, carried)
   \<and> output_log_prob output =
       \<lparr>dtype = tf_float32, shape = [2, 1], vals = [(-1 + -3) + -1/2, (-2 + -5) + -1/4]\<rparr>
   \<and> shape (output_log_prob output) = [2, 1]"
proof -
  have d: "tf_float32 \<noteq> tf_bool" by simp
  from step_log_prob_is_sum_of_groups [where tf = example_numerics,
      OF example_input_shape example_policy_call [of 7 tf_float32]
      example_transition_scope [of 7 tf_float32] example_cpfs [of 7 tf_float32]
      example_groups_not_empty(1) example_groups_not_empty(2) [of 7]
      example_interm_shaped example_next_state_shaped [of 7] d
      example_reward_call [of 7 tf_float32]]
  show ?thesis by (simp only: example_step_log_prob)
qed

text \<open>
  C1 does not hold of every step: on a model with no intermediate fluent, with the policy,
  the transition scope, the sampling and the reward all returning, \<^verbatim>\<open>tf.concat\<close> is
  given an empty list and the step raises ValueError: it has no log-probability output.
\<close>

theorem step_log_prob_no_interm_counterexample:
  "MRMCell_call example_numerics example_cell_no_interm example_input example_state = Inl ValueError
   \<and> policy example_cell_no_interm example_state example_input = Inr (example_action tf_float32)
   \<and> transition_scope (compiler example_cell_no_interm) example_state (example_action tf_float32) =
       Inr (example_scope tf_float32)
   \<and> compile_probabilistic_cpfs (compiler example_cell_no_interm) (example_scope tf_float32)
       (batch_size example_cell_no_interm) =
       Inr (([], example_next_state_fluents 7), (example_scope tf_float32)(''seen'' \<mapsto> example_seen))
   \<and> compile_reward (compiler example_cell_no_interm)
       (spec_updated_scope ((example_scope tf_float32)(''seen'' \<mapsto> example_seen))
          (example_next_state_fluents 7)) =
       Inr \<lparr>tensor = \<lparr>dtype = tf_float32, shape = [2, 1], vals = [17, 22]\<rparr>\<rparr>"
  by (simp add: example_defs example_scope_def spec_updated_scope_def upt_conv_Cons numeral_2_eq_2
      Let_def)

text \<open>
  C8. When a call of the cell returns \<^verbatim>\<open>(output, next_state)\<close>, the carried next state is
  the first component, \<^verbatim>\<open>next_state\<close>, of the five-component output.
\<close>

theorem carried_state_is_output_next_state:
  assumes "MRMCell_call tf self input state = Inr (output, carried)"
  shows "carried = fst output"
  using assms unfolding MRMCell_call_def
  by (auto simp: Let_def split: sum.splits prod.splits list.splits)

theorem carried_state_is_output_next_state_witness:
  "MRMCell_call example_numerics (example_cell 7 tf_float32) example_input example_state =
     Inr (([\<lparr>dtype = tf_float32, shape = [2, 1], vals = [7, 2]\<rparr>],
           [\<lparr>dtype = tf_float32, shape = [2, 1], vals = [1, 1]\<rparr>],
           [\<lparr>dtype = tf_float32, shape = [2, 1], vals = [3, 4]\<rparr>,
            \<lparr>dtype = tf_float32, shape = [2, 1], vals = [1, 0]\<rparr>],
           \<lparr>dtype = tf_float32, shape = [2, 1], vals = [17, 22]\<rparr>,
           \<lparr>dtype = tf_float32, shape = [2, 1], vals = [- (9 / 2), - (29 / 4)]\<rparr>),
          [\<lparr>dtype = tf_float32, shape = [2, 1], vals = [7, 2]\<rparr>])
   \<and> [\<lparr>dtype = tf_float32, shape = [2, 1], vals = [7, 2]\<rparr>] =
       fst ([\<lparr>dtype = tf_float32, shape = [2, 1], vals = [7, 2]\<rparr>],
           [\<lparr>dtype = tf_float32, shape = [2, 1], vals = [1, 1]\<rparr>],
           [\<lparr>dtype = tf_float32, shape = [2, 1], vals = [3, 4]\<rparr>,
            \<lparr>dtype = tf_float32, shape = [2, 1], vals = [1, 0]\<rparr>],
           \<lparr>dtype = tf_float32, shape = [2, 1], vals = [17, 22]\<rparr>,
           \<lparr>dtype = tf_float32, shape = [2, 1], vals = [- (9 / 2), - (29 / 4)]\<rparr>)"
  using carried_state_is_output_next_state [OF example_call [of 7 tf_float32]] example_call [of 7 tf_float32]
  by simp

text \<open>
  C2. In a step that returns (its collaborators return, on a model with both groups of
  fluents), the reward of the output is the tensor of the fluent that the compiler's
  reward function returns on the updated scope: the dictionary that the sampling was
  given, as the sampling left it, in which each next-state name then resolves to its
  sampled fluent. The step returns, so the reward function is called after the update
  and on nothing older.
\<close>

theorem reward_after_scope_update:
  assumes "shape input = [n, 2]"
      and "policy self state input = Inr act"
      and "transition_scope (compiler self) state act = Inr scope"
      and "compile_probabilistic_cpfs (compiler self) scope (batch_size self) =
             Inr ((interm_fluents, next_state_fluents), scope_after)"
      and "interm_fluents \<noteq> []" and "next_state_fluents \<noteq> []"
      and "list_all (log_prob_shaped B d) interm_fluents"
      and "list_all (log_prob_shaped B d) next_state_fluents"
      and "d \<noteq> tf_bool"
      and "compile_reward (compiler self) (spec_updated_scope scope_after next_state_fluents) = Inr r"
  shows "\<exists>output carried.
           MRMCell_call tf self input state = Inr (output, carried)
         \<and> output_reward output = tensor r"
  using MRMCell_call_returns [OF assms, of tf]
  by (simp add: output_reward_def)

theorem reward_after_scope_update_witness:
  "(\<exists>output carried.
      MRMCell_call example_numerics (example_cell 7 tf_float32) example_input example_state =
        Inr (output, carried)
    \<and> output_reward output = \<lparr>dtype = tf_float32, shape = [2, 1], vals = [7 + 10, 22]\<rparr>)
   \<and> (\<exists>output carried.
      MRMCell_call example_numerics (example_cell 8 tf_float32) example_input example_state =
        Inr (output, carried)
    \<and> output_reward output = \<lparr>dtype = tf_float32, shape = [2, 1], vals = [8 + 10, 22]\<rparr>)
   \<and> compile_reward (compiler (example_cell 7 tf_float32)) (example_scope tf_float32)
       = Inl KeyError"
proof -
  have d: "tf_float32 \<noteq> tf_bool" by simp
  have step: "\<exists>output carried.
      MRMCell_call example_numerics (example_cell v tf_float32) example_input example_state =
        Inr (output, carried)
    \<and> output_reward output = \<lparr>dtype = tf_float32, shape = [2, 1], vals = [v + 10, 22]\<rparr>" for v
    using reward_after_scope_update [where tf = example_numerics,
      OF example_input_shape example_policy_call [of v tf_float32]
      example_transition_scope [of v tf_float32] example_cpfs [of v tf_float32]
      example_groups_not_empty(1) example_groups_not_empty(2) [of v]
      example_interm_shaped example_next_state_shaped [of v] d
      example_reward_call [of v tf_float32]]
    by simp
  have k: "compile_reward (compiler (example_cell 7 tf_float32)) (example_scope tf_float32)
       = Inl KeyError"
    by (simp add: example_cell_def example_compiler_def example_reward_def example_scope_def)
  from step [of 7] step [of 8] k show ?thesis by (simp only:)
qed

text \<open>
  C3. The tensors of \<^verbatim>\<open>next_state\<close> and \<^verbatim>\<open>interm_state\<close> go through \<^verbatim>\<open>_output\<close> and are
  float32 (\<open>MRMCell_output_float32\<close>). The action does not go through it: at a policy
  that returns an int32 tensor the action of the output is that int32 tensor, where C3
  and \<^verbatim>\<open>test_action_output\<close> have a float32 tensor.
\<close>

theorem action_dtype_not_cast:
  "MRMCell_call example_numerics (example_cell 7 tf_int32) example_input example_state =
     Inr (([\<lparr>dtype = tf_float32, shape = [2, 1], vals = [7, 2]\<rparr>],
           [\<lparr>dtype = tf_int32, shape = [2, 1], vals = [1, 1]\<rparr>],
           [\<lparr>dtype = tf_float32, shape = [2, 1], vals = [3, 4]\<rparr>,
            \<lparr>dtype = tf_float32, shape = [2, 1], vals = [1, 0]\<rparr>],
           \<lparr>dtype = tf_float32, shape = [2, 1], vals = [17, 22]\<rparr>,
           \<lparr>dtype = tf_float32, shape = [2, 1], vals = [- (9 / 2), - (29 / 4)]\<rparr>),
          [\<lparr>dtype = tf_float32, shape = [2, 1], vals = [7, 2]\<rparr>])
   \<and> policy (example_cell 7 tf_int32) example_state example_input =
       Inr [\<lparr>dtype = tf_int32, shape = [2, 1], vals = [1, 1]\<rparr>]"
  by (simp add: example_defs upt_conv_Cons numeral_2_eq_2 Let_def)


section \<open>Properties of the rollout driver\<close>

lemma nth_concat_uniform:
  assumes "\<forall>xs \<in> set xss. length xs = sz" and "i < length xss" and "j < sz"
  shows "concat xss ! (i * sz + j) = xss ! i ! j"
proof -
  from assms(2) have d: "drop i xss = xss ! i # drop (Suc i) xss"
    by (simp add: Cons_nth_drop_Suc)
  from assms(1,2) have l: "length (xss ! i) = sz" by simp
  from assms have "i * sz + j < length (concat xss)"
  proof -
    have "length (concat xss) = length xss * sz"
      using assms(1) by (induction xss) simp_all
    moreover from assms(2) have "Suc i * sz \<le> length xss * sz"
      by (intro mult_le_mono1) simp
    ultimately show ?thesis using assms(3) by simp
  qed
  then have "concat xss ! (i * sz + j) = drop (i * sz) (concat xss) ! j"
    by simp
  also have "\<dots> = concat (drop i xss) ! j"
    by (simp add: drop_concat_uniform [OF assms(1)])
  also have "\<dots> = xss ! i ! j"
    using d l assms(3) by (simp add: nth_append)
  finally show ?thesis .
qed

lemma rank3_row:
  assumes "shape t = [B, H, 1]"
  shows "tensor_row t b = take H (drop (b * H) (vals t))"
  using assms by (simp add: tensor_row_def)

lemma rank3_elem:
  assumes "shape t = [B, H, 1]"
  shows "elem t [b, i, 0] = vals t ! (b * H + i)"
  using assms by (simp add: elem_def)

lemma rank3_row_length:
  assumes "shape t = [B, H, 1]" and "wf_tensor t" and "b < B"
  shows "length (tensor_row t b) = H"
proof -
  from assms(3) have "Suc b * H \<le> B * H" by (intro mult_le_mono1) simp
  then have "H \<le> B * H - b * H" by simp
  with assms(1,2) show ?thesis
    by (simp add: rank3_row [OF assms(1)] wf_tensor_def)
qed

lemma rank3_elem_row:
  assumes "shape t = [B, H, 1]" and "wf_tensor t" and "b < B" and "i < H"
  shows "elem t [b, i, 0] = tensor_row t b ! i"
proof -
  from assms(3) have "b * H \<le> B * H" by (intro mult_le_mono1) simp
  with assms(1,2) have "b * H \<le> length (vals t)" by (simp add: wf_tensor_def)
  with assms(4) show ?thesis
    by (simp add: rank3_elem [OF assms(1)] rank3_row [OF assms(1)])
qed

lemma replicate_rows_row:
  assumes "length row = H" and "b < B"
  shows "take H (drop (b * H) (concat (replicate B row))) = row"
proof -
  have u: "\<forall>xs \<in> set (replicate B row). length xs = H" using assms(1) by simp
  from assms(2) have "drop b (replicate B row) = row # replicate (B - Suc b) row"
    by (simp add: Suc_diff_Suc flip: replicate_Suc)
  with assms(1) show ?thesis
    by (simp add: drop_concat_uniform [OF u])
qed

lemma countdown_rev: "map (\<lambda>t. real_of_int (int H - 1 - int t)) [0..<H] = rev (map real [0..<H])"
proof (rule nth_equalityI)
  show "length (map (\<lambda>t. real_of_int (int H - 1 - int t)) [0..<H]) = length (rev (map real [0..<H]))"
    by simp
next
  fix i assume "i < length (map (\<lambda>t. real_of_int (int H - 1 - int t)) [0..<H])"
  then have i: "i < H" by simp
  then have "int (H - Suc i) = int H - 1 - int i" by simp
  with i show "map (\<lambda>t. real_of_int (int H - 1 - int t)) [0..<H] ! i = rev (map real [0..<H]) ! i"
    by (simp add: rev_nth)
qed

lemma countdown_decreasing: "sorted_wrt (>) (rev (map real [0..<H]))"
  by (simp add: sorted_wrt_rev sorted_wrt_map sorted_wrt_upt flip: strict_sorted_iff)

text \<open>
  C5. For every horizon \<open>H \<ge> 1\<close> (and the batch size at least 1 that the driver
  accepts), \<^verbatim>\<open>timesteps(H)\<close> returns a tensor of shape \<^verbatim>\<open>[batch, H, 1]\<close> whose every batch
  row is the countdown \<open>H-1, H-2, ..., 0\<close>, a strictly decreasing sequence.
\<close>

theorem timesteps_countdown:
  assumes "1 \<le> horizon" and "1 \<le> batch_size (mrm_cell self)"
  shows "\<exists>ts. timesteps self horizon = Inr ts
             \<and> shape ts = [nat (batch_size (mrm_cell self)), nat horizon, 1]
             \<and> wf_tensor ts
             \<and> (\<forall>b < nat (batch_size (mrm_cell self)).
                   tensor_row ts b = rev (map real [0..<nat horizon])
                 \<and> sorted_wrt (>) (tensor_row ts b))"
proof -
  let ?B = "nat (batch_size (mrm_cell self))"
  let ?H = "nat horizon"
  let ?row = "map (\<lambda>t. real_of_int (horizon - 1 - int t)) [0..<?H]"
  define ts where "ts = \<lparr>dtype = tf_float32, shape = [?B, ?H, 1], vals = concat (replicate ?B ?row)\<rparr>"
  have t: "timesteps self horizon = Inr ts"
    using assms by (simp add: timesteps_def ts_def Let_def)
  have sh: "shape ts = [?B, ?H, 1]" by (simp add: ts_def)
  have wf: "wf_tensor ts"
    by (simp add: ts_def wf_tensor_def length_concat sum_list_replicate)
  from assms(1) have "int ?H = horizon" by simp
  then have "?row = map (\<lambda>t. real_of_int (int ?H - 1 - int t)) [0..<?H]" by simp
  then have row: "?row = rev (map real [0..<?H])"
    by (simp only: countdown_rev)
  have "tensor_row ts b = rev (map real [0..<?H])" if "b < ?B" for b
  proof -
    have "tensor_row ts b = take ?H (drop (b * ?H) (vals ts))"
      by (rule rank3_row [OF sh])
    also have "\<dots> = take ?H (drop (b * ?H) (concat (replicate ?B ?row)))"
      by (simp add: ts_def)
    also have "\<dots> = ?row"
      using that by (intro replicate_rows_row) simp_all
    finally show ?thesis using row by simp
  qed
  with t sh wf show ?thesis
    by (auto simp: countdown_decreasing)
qed

theorem timesteps_countdown_witness:
  "timesteps example_model 3 =
     Inr \<lparr>dtype = tf_float32, shape = [2, 3, 1], vals = [2, 1, 0, 2, 1, 0]\<rparr>
   \<and> tensor_row \<lparr>dtype = tf_float32, shape = [2, 3, 1], vals = [2::real, 1, 0, 2, 1, 0]\<rparr> 1
       = [2, 1, 0]
   \<and> rev (map real [0..<nat 3]) = [2, 1, 0]"
proof -
  have h: "(1::int) \<le> 3" by simp
  have b: "1 \<le> batch_size (mrm_cell example_model)"
    by (simp add: example_model_def example_cell_def)
  have t: "timesteps example_model 3 =
     Inr \<lparr>dtype = tf_float32, shape = [2, 3, 1], vals = [2, 1, 0, 2, 1, 0]\<rparr>"
    by (simp add: timesteps_def example_model_def example_cell_def upt_conv_Cons
        numeral_2_eq_2 numeral_3_eq_3)
  have r: "rev (map real [0..<nat 3]) = [2, 1, 0]"
    by (simp add: upt_conv_Cons numeral_3_eq_3)
  from timesteps_countdown [OF h b] t r show ?thesis
    by (simp add: example_model_def example_cell_def)
qed

text \<open>
  C6. For every horizon that the driver accepts, \<^verbatim>\<open>stop_flags\<close> returns a tensor of
  shape \<^verbatim>\<open>[batch, H, 1]\<close> whose every element is 0 for FULLY_REPARAMETERIZED and 1 for
  NOT_REPARAMETERIZED: the flag is the same at every time step and batch row.
\<close>

theorem stop_flags_constant:
  assumes "1 \<le> horizon" and "1 \<le> batch_size (mrm_cell self)"
  shows "\<exists>z u. stop_flags self horizon FULLY_REPARAMETERIZED = Inr z
             \<and> stop_flags self horizon NOT_REPARAMETERIZED = Inr u
             \<and> shape z = [nat (batch_size (mrm_cell self)), nat horizon, 1]
             \<and> shape u = [nat (batch_size (mrm_cell self)), nat horizon, 1]
             \<and> wf_tensor z \<and> wf_tensor u
             \<and> list_all (\<lambda>x. x = 0) (vals z) \<and> list_all (\<lambda>x. x = 1) (vals u)"
  using assms by (simp add: stop_flags_def Let_def wf_tensor_def list_all_iff)

theorem stop_flags_constant_witness:
  "stop_flags example_model 3 FULLY_REPARAMETERIZED =
     Inr \<lparr>dtype = tf_float32, shape = [2, 3, 1], vals = [0, 0, 0, 0, 0, 0]\<rparr>
   \<and> stop_flags example_model 3 NOT_REPARAMETERIZED =
     Inr \<lparr>dtype = tf_float32, shape = [2, 3, 1], vals = [1, 1, 1, 1, 1, 1]\<rparr>"
proof -
  have h: "(1::int) \<le> 3" by simp
  have b: "1 \<le> batch_size (mrm_cell example_model)"
    by (simp add: example_model_def example_cell_def)
  from stop_flags_constant [OF h b] show ?thesis
    by (simp add: stop_flags_def example_model_def example_cell_def numeral_eq_Suc)
qed

text \<open>
  C4. For every well-formed reward tensor of shape \<^verbatim>\<open>[batch, H, 1]\<close> with \<open>H \<ge> 1\<close>,
  \<^verbatim>\<open>reward_to_go\<close> returns a tensor of the same shape and element type that, in every
  batch row, equals the rewards at the last time step, equals the sum of all the rewards
  of the row at the first time step, and satisfies
  \<open>reward_to_go[b,t] = rewards[b,t] + reward_to_go[b,t+1]\<close> for \<open>t < H-1\<close>.
\<close>

theorem reward_to_go_suffix_sums:
  assumes "shape rewards = [B, H, 1]" and "wf_tensor rewards" and "0 < H"
  shows "\<exists>q. reward_to_go self rewards = Inr q
            \<and> shape q = shape rewards \<and> dtype q = dtype rewards \<and> wf_tensor q
            \<and> (\<forall>b < B.
                  elem q [b, H - 1, 0] = elem rewards [b, H - 1, 0]
                \<and> elem q [b, 0, 0] = sum_list (tensor_row rewards b)
                \<and> (\<forall>t. Suc t < H \<longrightarrow>
                      elem q [b, t, 0] = elem rewards [b, t, 0] + elem q [b, Suc t, 0]))"
proof -
  let ?f = "\<lambda>row::real list. map (\<lambda>t. sum_list (drop t row)) [0..<H]"
  let ?rows = "map ?f (chunks B H (vals rewards))"
  define q where "q = rewards\<lparr>vals := concat ?rows\<rparr>"
  have rq: "reward_to_go self rewards = Inr q"
    using assms(1) by (simp add: reward_to_go_def q_def)
  have sq: "shape q = [B, H, 1]" "dtype q = dtype rewards"
    using assms(1) by (simp_all add: q_def)
  have uni: "\<forall>xs \<in> set ?rows. length xs = H" by auto
  have lr: "length ?rows = B" by (simp add: length_chunks)
  have "length (concat ?rows) = B * H"
    by (simp add: length_concat comp_def length_chunks sum_list_triv)
  then have wq: "wf_tensor q" by (simp add: wf_tensor_def q_def assms(1))
  have el: "elem q [b, t, 0] = sum_list (drop t (tensor_row rewards b))" if "b < B" "t < H" for b t
  proof -
    have "elem q [b, t, 0] = vals q ! (b * H + t)"
      by (rule rank3_elem [OF sq(1)])
    also have "\<dots> = concat ?rows ! (b * H + t)"
      by (simp add: q_def)
    also have "\<dots> = ?rows ! b ! t"
      using that lr by (intro nth_concat_uniform [OF uni]) simp_all
    also have "\<dots> = sum_list (drop t (tensor_row rewards b))"
      using that by (simp add: length_chunks nth_chunks rank3_row [OF assms(1)])
    finally show ?thesis .
  qed
  have props: "elem q [b, H - 1, 0] = elem rewards [b, H - 1, 0]
        \<and> elem q [b, 0, 0] = sum_list (tensor_row rewards b)
        \<and> (\<forall>t. Suc t < H \<longrightarrow> elem q [b, t, 0] = elem rewards [b, t, 0] + elem q [b, Suc t, 0])"
    if b: "b < B" for b
  proof -
    let ?row = "tensor_row rewards b"
    have len: "length ?row = H" using assms(1,2) b by (rule rank3_row_length)
    have er: "elem rewards [b, t, 0] = ?row ! t" if "t < H" for t
      using assms(1,2) b that by (rule rank3_elem_row)
    have step: "drop t ?row = ?row ! t # drop (Suc t) ?row" if "t < H" for t
      using that len by (simp add: Cons_nth_drop_Suc)
    have "elem q [b, H - 1, 0] = elem rewards [b, H - 1, 0]"
      using assms(3) len by (simp add: el [OF b] er step)
    moreover have "elem q [b, 0, 0] = sum_list ?row"
      using assms(3) by (simp add: el [OF b])
    moreover have "elem q [b, t, 0] = elem rewards [b, t, 0] + elem q [b, Suc t, 0]" if "Suc t < H" for t
      using that by (simp add: el [OF b] er step)
    ultimately show ?thesis by blast
  qed
  from rq sq wq props assms(1) show ?thesis by auto
qed

theorem reward_to_go_suffix_sums_witness:
  "shape example_rewards = [2, 3, 1] \<and> wf_tensor example_rewards
   \<and> reward_to_go example_model example_rewards =
        Inr \<lparr>dtype = tf_float32, shape = [2, 3, 1], vals = [6, 5, 3, 4, 5, 5]\<rparr>"
proof -
  have s: "shape example_rewards = [2, 3, 1]" by (simp add: example_rewards_def)
  have w: "wf_tensor example_rewards" by (simp add: example_rewards_def wf_tensor_def)
  have r: "reward_to_go example_model example_rewards =
        Inr \<lparr>dtype = tf_float32, shape = [2, 3, 1], vals = [6, 5, 3, 4, 5, 5]\<rparr>"
    by (simp add: reward_to_go_def example_rewards_def chunks_def upt_conv_Cons numeral_2_eq_2
        numeral_3_eq_3)
  from reward_to_go_suffix_sums [OF s w, of example_model] s w r show ?thesis by simp
qed


section \<open>Properties of the planner\<close>

text \<open>
  C10. For every runtime, class, compiler argument and JSON string, \<^verbatim>\<open>from_json\<close>
  raises NameError for the name \<^verbatim>\<open>json\<close> and returns no planner: neither \<^verbatim>\<open>json\<close> nor
  \<^verbatim>\<open>json_string\<close> is bound in the method, in the module or in the builtins.
\<close>

theorem from_json_raises_NameError:
  "from_json rt cls compiler_arg json_config = Inl (NameError ''json'')
   \<and> load_global rt ''json_string'' = Inl (NameError ''json_string'')"
  by (simp add: from_json_def load_global_def planner_module_names_def python_builtin_names_def)

end
